theory Spec2Isabelle
  imports Main "HOL-Library.Sublist"
begin

section \<open>The draw.io CSV exporter of \<^verbatim>\<open>cdk/lib/cdk-stack.ts\<close>\<close>

text \<open>
  The source file holds two versions of the stack. Both end by building the string
  \<^verbatim>\<open>drawioCsv\<close> and handing it to a \<^verbatim>\<open>CfnOutput\<close>. The first version builds the
  string from objects of the classes \<^verbatim>\<open>AwsResource\<close>, \<^verbatim>\<open>Ec2Instance\<close> and
  \<^verbatim>\<open>ApplicationLoadBalancer\<close>; the second one from three local variables. Everything
  before that (VPC, security groups, instance, load balancer) belongs to the CDK
  library; the exporter reads two strings from it, \<^verbatim>\<open>ec2Instance.instanceId\<close> and
  \<^verbatim>\<open>alb.loadBalancerName\<close>, which are parameters here.

  TypeScript strings are modelled as \<^typ>\<open>string\<close>, arrays of strings as lists.
\<close>

subsection \<open>Class \<^verbatim>\<open>AwsResource\<close> (lines 139 to 162)\<close>

record AwsResource =
  name :: string
  fill :: string
  stroke :: string
  shape :: string
  refs :: "string list"

text \<open>The constructor copies its four arguments and starts with no references.\<close>

definition AwsResource_new :: "string \<Rightarrow> string \<Rightarrow> string \<Rightarrow> string \<Rightarrow> AwsResource" where
  "AwsResource_new n f s sh = \<lparr>name = n, fill = f, stroke = s, shape = sh, refs = []\<rparr>"

text \<open>\<^verbatim>\<open>addRef(ref) { this.refs.push(ref); }\<close>: the object after the call.\<close>

definition addRef :: "AwsResource \<Rightarrow> string \<Rightarrow> AwsResource" where
  "addRef r ref = r\<lparr>refs := refs r @ [ref]\<rparr>"

text \<open>
  \<^verbatim>\<open>Array.prototype.join\<close> on an array of strings: the empty array gives the empty
  string, otherwise the elements with the separator between neighbours.
\<close>

fun join_str :: "string \<Rightarrow> string list \<Rightarrow> string" where
  "join_str sep [] = []"
| "join_str sep [x] = x"
| "join_str sep (x # y # ys) = x @ sep @ join_str sep (y # ys)"

text \<open>
  \<^verbatim>\<open>toCsvLine()\<close>: the references joined by a comma, then the template literal
  \<^verbatim>\<open>${this.name},${this.fill},${this.stroke},${this.shape},${refsString}\<close>.
\<close>

definition toCsvLine :: "AwsResource \<Rightarrow> string" where
  "toCsvLine r =
     (let refsString = join_str '','' (refs r)
      in name r @ '','' @ fill r @ '','' @ stroke r @ '','' @ shape r @ '','' @ refsString)"

subsection \<open>The subclasses (lines 164 to 174)\<close>

definition Ec2Instance :: "string \<Rightarrow> AwsResource" where
  "Ec2Instance n = AwsResource_new n ''#ED7100'' ''#ffffff'' ''mxgraph.aws4.ec2''"

definition ApplicationLoadBalancer :: "string \<Rightarrow> AwsResource" where
  "ApplicationLoadBalancer n =
     AwsResource_new n ''#8C4FFF'' ''#ffffff'' ''mxgraph.aws4.application_load_balancer''"

subsection \<open>First version: the template over the resource list (lines 104 to 132)\<close>

text \<open>
  The template literal opens with a line break, holds the directive lines and the column
  line, then \<^verbatim>\<open>${resources.map(resource => resource.toCsvLine()).join('\n')}\<close>,
  and closes on a line of its own. Each line of the literal is one line below; the
  literal is a function of the interpolated text, and \<^verbatim>\<open>drawioCsv\<close> applies it to the
  joined rows.
\<close>

definition drawioCsv_template :: "string \<Rightarrow> string" where
  \<open>drawioCsv_template rows =
     ''\<newline>'' @
     ''## Simple web server AWS diagram\<newline>'' @
     ''# label: %component%\<newline>'' @
     ''# style: shape=%shape%;fillColor=%fill%;strokeColor=%stroke%;verticalLabelPosition=bottom;\<newline>'' @
     ''# namespace: csvimport-\<newline>'' @
     ''# connect: {"from":"refs", "to":"component", "invert":true, "style":"curved=0;endArrow=block;endFill=0;dashed=1;strokeColor=#6c8ebf;"}\<newline>'' @
     ''# width: 80\<newline>'' @
     ''# height: 80\<newline>'' @
     ''# ignore: refs\<newline>'' @
     ''# nodespacing: 40\<newline>'' @
     ''# levelspacing: 40\<newline>'' @
     ''# edgespacing: 40\<newline>'' @
     ''# layout: horizontaltree\<newline>'' @
     ''## CSV data starts below this line\<newline>'' @
     ''component,fill,stroke,shape,refs\<newline>'' @
     rows @ ''\<newline>''\<close>

definition drawioCsv :: "AwsResource list \<Rightarrow> string" where
  "drawioCsv resources = drawioCsv_template (join_str ''\<newline>'' (map toCsvLine resources))"

text \<open>
  The statements of the constructor that lead to the string: the two objects are
  created, the instance gets the load balancer's name as a reference, and both are
  pushed, the instance first.
\<close>

definition CdkStack_v1 :: "string \<Rightarrow> string \<Rightarrow> string" where
  "CdkStack_v1 instanceId loadBalancerName =
     (let resources = [];
          ec2Model = Ec2Instance instanceId;
          albModel = ApplicationLoadBalancer loadBalancerName;
          ec2Model = addRef ec2Model (name albModel);
          resources = resources @ [ec2Model, albModel]
      in drawioCsv resources)"

subsection \<open>Second version: three local variables (lines 275 to 296)\<close>

definition CdkStack_v2 :: "string \<Rightarrow> string \<Rightarrow> string" where
  \<open>CdkStack_v2 instanceId loadBalancerName =
     (let albName = loadBalancerName;
          ec2Name = instanceId;
          ec2Refs = albName
      in
     ''\<newline>'' @
     ''## Simple web server AWS diagram\<newline>'' @
     ''# label: %component%\<newline>'' @
     ''# style: shape=%shape%;fillColor=%fill%;strokeColor=%stroke%;verticalLabelPosition=bottom;\<newline>'' @
     ''# namespace: csvimport-\<newline>'' @
     ''# connect: {"from":"refs", "to":"component", "invert":true, "style":"curved=0;endArrow=block;endFill=0;dashed=1;strokeColor=#6c8ebf;"}\<newline>'' @
     ''# width: 80\<newline>'' @
     ''# height: 80\<newline>'' @
     ''# ignore: refs\<newline>'' @
     ''# nodespacing: 40\<newline>'' @
     ''# levelspacing: 40\<newline>'' @
     ''# edgespacing: 40\<newline>'' @
     ''# layout: horizontaltree\<newline>'' @
     ''## CSV data starts below this line\<newline>'' @
     ''component,fill,stroke,shape,refs\<newline>'' @
     albName @ '',#8C4FFF,#ffffff,mxgraph.aws4.application_load_balancer,\<newline>'' @
     ec2Name @ '',#ED7100,#ffffff,mxgraph.aws4.ec2,'' @ ec2Refs @ ''\<newline>'')\<close>

subsection \<open>The operations of the specification, as the classes provide them\<close>

text \<open>
  The specification speaks of a closed set of kinds and of two operations that can fail.
  In the source a kind is one of the two subclasses, \<^verbatim>\<open>createNode\<close> is \<^verbatim>\<open>new\<close> on
  that subclass, and \<^verbatim>\<open>addReference\<close> is the method \<^verbatim>\<open>addRef\<close>. Neither constructor
  nor method contains a \<^verbatim>\<open>throw\<close> or a test of its argument, so as operations with an
  error result both always return on the \<open>Inr\<close> side.
\<close>

datatype kind = ComputeInstance | LoadBalancer

datatype error = InvalidNameError | UnknownTargetError

definition newNode :: "kind \<Rightarrow> string \<Rightarrow> AwsResource" where
  "newNode k n = (case k of ComputeInstance \<Rightarrow> Ec2Instance n | LoadBalancer \<Rightarrow> ApplicationLoadBalancer n)"

definition createNode :: "kind \<Rightarrow> string \<Rightarrow> error + AwsResource" where
  "createNode k n = Inr (newNode k n)"

definition addReference :: "AwsResource \<Rightarrow> string \<Rightarrow> error + AwsResource" where
  "addReference node targetName = Inr (addRef node targetName)"

text \<open>
  A builder session in general: for each declared resource (kind, name, names it
  refers to) the constructor call and one \<^verbatim>\<open>addRef\<close> call per reference, the objects
  pushed in the order of the declarations. Lines 104 to 114 are the session that
  declares the instance with one reference and then the load balancer.
\<close>

type_synonym decl = "kind \<times> string \<times> string list"

definition declared_name :: "decl \<Rightarrow> string" where
  "declared_name d = fst (snd d)"

definition build_node :: "decl \<Rightarrow> AwsResource" where
  "build_node d = foldl addRef (newNode (fst d) (fst (snd d))) (snd (snd d))"

definition build :: "decl list \<Rightarrow> AwsResource list" where
  "build ds = map build_node ds"

text \<open>
  What the specification calls a valid name (not empty, no comma, no line break) and a
  valid session (every name valid, every reference the name of a declared resource).
  The source checks neither; they are the hypotheses under which the specification
  promises a well-formed table.
\<close>

definition valid_name :: "string \<Rightarrow> bool" where
  "valid_name n \<longleftrightarrow> n \<noteq> [] \<and> CHR '','' \<notin> set n \<and> CHR ''\<newline>'' \<notin> set n"

definition valid_session :: "decl list \<Rightarrow> bool" where
  "valid_session ds \<longleftrightarrow>
     list_all (\<lambda>d. valid_name (declared_name d) \<and>
                   list_all (\<lambda>t. t \<in> set (map declared_name ds)) (snd (snd d))) ds"

subsection \<open>Reading the table back\<close>

text \<open>
  \<^verbatim>\<open>String.prototype.split\<close> with a one-character separator: the pieces between
  the separators, the empty string giving one empty piece. The accumulator holds the
  current piece reversed.
\<close>

fun split_acc :: "char \<Rightarrow> string \<Rightarrow> string \<Rightarrow> string list" where
  "split_acc c acc [] = [rev acc]"
| "split_acc c acc (x # xs) =
     (if x = c then rev acc # split_acc c [] xs else split_acc c (x # acc) xs)"

definition split_on :: "char \<Rightarrow> string \<Rightarrow> string list" where
  "split_on c s = split_acc c [] s"

text \<open>
  The importer's view of the text, after section 6 of the specification: the data rows
  are the non-empty lines below the column line; the component of a row is its first
  field; its references are the non-empty fields from the fifth on.
\<close>

definition column_line :: string where
  "column_line = ''component,fill,stroke,shape,refs''"

definition data_rows :: "string \<Rightarrow> string list" where
  "data_rows out =
     filter (\<lambda>l. l \<noteq> []) (tl (dropWhile (\<lambda>l. l \<noteq> column_line) (split_on CHR ''\<newline>'' out)))"

definition component_column :: "string \<Rightarrow> string list" where
  "component_column out = map (\<lambda>row. hd (split_on CHR '','' row)) (data_rows out)"

definition refs_column :: "string \<Rightarrow> string list" where
  "refs_column out =
     concat (map (\<lambda>row. filter (\<lambda>f. f \<noteq> []) (drop 4 (split_on CHR '','' row))) (data_rows out))"

text \<open>The directive lines of the header, and a list of lines written out with a line break after each.\<close>

definition directive_lines :: "string list" where
  \<open>directive_lines =
     [''## Simple web server AWS diagram'',
      ''# label: %component%'',
      ''# style: shape=%shape%;fillColor=%fill%;strokeColor=%stroke%;verticalLabelPosition=bottom;'',
      ''# namespace: csvimport-'',
      ''# connect: {"from":"refs", "to":"component", "invert":true, "style":"curved=0;endArrow=block;endFill=0;dashed=1;strokeColor=#6c8ebf;"}'',
      ''# width: 80'',
      ''# height: 80'',
      ''# ignore: refs'',
      ''# nodespacing: 40'',
      ''# levelspacing: 40'',
      ''# edgespacing: 40'',
      ''# layout: horizontaltree'',
      ''## CSV data starts below this line'']\<close>

definition terminated :: "string list \<Rightarrow> string" where
  "terminated ls = concat (map (\<lambda>l. l @ ''\<newline>'') ls)"

subsection \<open>Rendering with the objects threaded through\<close>

text \<open>
  The same statements with the objects passed along, to say what a call leaves behind:
  \<^verbatim>\<open>toCsvLine\<close> reads the five fields of \<^verbatim>\<open>this\<close> and assigns to none;
  \<^verbatim>\<open>resources.map\<close> calls it on each element from left to right and builds a new
  array. Each function returns its value together with the objects after the call.
\<close>

definition toCsvLine_st :: "AwsResource \<Rightarrow> string \<times> AwsResource" where
  "toCsvLine_st this =
     (let refsString = join_str '','' (refs this)
      in (name this @ '','' @ fill this @ '','' @ stroke this @ '','' @ shape this @ '','' @ refsString,
          this))"

fun map_toCsvLine_st :: "AwsResource list \<Rightarrow> string list \<times> AwsResource list" where
  "map_toCsvLine_st [] = ([], [])"
| "map_toCsvLine_st (r # rs) =
     (let (l, r') = toCsvLine_st r;
          (ls, rs') = map_toCsvLine_st rs
      in (l # ls, r' # rs'))"

definition drawioCsv_st :: "AwsResource list \<Rightarrow> string \<times> AwsResource list" where
  "drawioCsv_st resources =
     (let (ls, resources') = map_toCsvLine_st resources
      in (drawioCsv_template (join_str ''\<newline>'' ls), resources'))"

section \<open>Rows\<close>

lemma join_str_Cons: "join_str sep (x # xs) = (if xs = [] then x else x @ sep @ join_str sep xs)"
  by (cases xs) simp_all

lemma refs_foldl_addRef: "refs (foldl addRef r ts) = refs r @ ts"
  by (induction ts arbitrary: r) (simp_all add: addRef_def)

lemma style_foldl_addRef:
  "name (foldl addRef r ts) = name r \<and> fill (foldl addRef r ts) = fill r \<and>
   stroke (foldl addRef r ts) = stroke r \<and> shape (foldl addRef r ts) = shape r"
  by (induction ts arbitrary: r) (simp_all add: addRef_def)

text \<open>
  C5. The row of a node is its name, fill, stroke and shape and the joined references,
  each separated from the next by one comma; the references are joined by a comma as
  they are, nothing is quoted or escaped: one reference gives the reference itself, a
  further reference adds a comma and that reference. A node with no references has the
  empty string as its last field, so its row ends with the comma that follows the shape.
\<close>

theorem toCsvLine_format:
  "toCsvLine r = name r @ '','' @ fill r @ '','' @ stroke r @ '','' @ shape r @ '','' @ join_str '','' (refs r)
   \<and> join_str '','' [] = ''''
   \<and> join_str '','' [t] = t
   \<and> join_str '','' (t # u # ts) = t @ '','' @ join_str '','' (u # ts)
   \<and> toCsvLine (r\<lparr>refs := []\<rparr>) = name r @ '','' @ fill r @ '','' @ stroke r @ '','' @ shape r @ '',''"
  by (simp add: toCsvLine_def)

text \<open>
  C6. The style of a node depends on its kind alone: a compute instance has fill
  #ED7100, stroke #ffffff and shape mxgraph.aws4.ec2, a load balancer has fill #8C4FFF,
  stroke #ffffff and shape mxgraph.aws4.application_load_balancer, whatever the name and
  whatever references are added afterwards.
\<close>

theorem style_lookup:
  "fill (foldl addRef (newNode ComputeInstance n) ts) = ''#ED7100''
   \<and> stroke (foldl addRef (newNode ComputeInstance n) ts) = ''#ffffff''
   \<and> shape (foldl addRef (newNode ComputeInstance n) ts) = ''mxgraph.aws4.ec2''
   \<and> fill (foldl addRef (newNode LoadBalancer n) ts) = ''#8C4FFF''
   \<and> stroke (foldl addRef (newNode LoadBalancer n) ts) = ''#ffffff''
   \<and> shape (foldl addRef (newNode LoadBalancer n) ts) = ''mxgraph.aws4.application_load_balancer''
   \<and> createNode ComputeInstance n = Inr (Ec2Instance n)
   \<and> createNode LoadBalancer n = Inr (ApplicationLoadBalancer n)"
  by (simp add: style_foldl_addRef createNode_def newNode_def Ec2Instance_def
      ApplicationLoadBalancer_def AwsResource_new_def)

section \<open>Construction never fails\<close>

text \<open>
  C2, as the specification states it, is false: the name \<open>a,b\<close> holds a comma, and the
  constructor returns a node with that name instead of failing with InvalidNameError.
\<close>

theorem createNode_comma_counterexample:
  "createNode ComputeInstance ''a,b'' =
     Inr \<lparr>name = ''a,b'', fill = ''#ED7100'', stroke = ''#ffffff'', shape = ''mxgraph.aws4.ec2'', refs = []\<rparr>
   \<and> createNode ComputeInstance ''a,b'' \<noteq> Inl InvalidNameError"
  by (simp add: createNode_def newNode_def Ec2Instance_def AwsResource_new_def)

text \<open>
  C2, amended. Constructing a node never fails: for every kind and every name, the empty
  name and names with a comma or a line break included, the constructor returns a node
  with that name and with no references.
\<close>

theorem createNode_total:
  "\<exists>r. createNode k n = Inr r \<and> name r = n \<and> refs r = []"
  by (cases k) (simp_all add: createNode_def newNode_def Ec2Instance_def
      ApplicationLoadBalancer_def AwsResource_new_def)

text \<open>
  C1, as the specification states it, is false: in the session that has constructed the
  single node \<open>i-1\<close>, adding a reference to \<open>ghost\<close>, the name of no constructed node,
  does not fail with UnknownTargetError; the reference is recorded and reaches the
  rendered row.
\<close>

theorem addReference_unknown_target_counterexample:
  "''ghost'' \<notin> set (map name [Ec2Instance ''i-1''])
   \<and> addReference (Ec2Instance ''i-1'') ''ghost'' \<noteq> Inl UnknownTargetError
   \<and> addReference (Ec2Instance ''i-1'') ''ghost'' = Inr ((Ec2Instance ''i-1'')\<lparr>refs := [''ghost'']\<rparr>)
   \<and> map toCsvLine [addRef (Ec2Instance ''i-1'') ''ghost''] = [''i-1,#ED7100,#ffffff,mxgraph.aws4.ec2,ghost'']"
  by (simp add: addReference_def addRef_def Ec2Instance_def AwsResource_new_def toCsvLine_def)

text \<open>
  C1, amended. Adding a reference never fails and checks nothing: for every node and
  every target name the call returns the node with the target appended to its
  references, all other fields unchanged.
\<close>

theorem addReference_appends:
  "addReference node targetName = Inr (node\<lparr>refs := refs node @ [targetName]\<rparr>)"
  by (simp add: addReference_def addRef_def)

section \<open>The two versions\<close>

lemma template_prefix:
  "prefix ''\<newline>## Simple web server AWS diagram\<newline>'' (drawioCsv_template rows)"
  by (simp add: drawioCsv_template_def)

lemma template_suffix: "suffix (rows @ ''\<newline>'') (drawioCsv_template rows)"
  unfolding drawioCsv_template_def by (rule suffix_order.refl | rule suffix_appendI)+

lemma CdkStack_v1_rows:
  "CdkStack_v1 e a =
     drawioCsv_template (toCsvLine (addRef (Ec2Instance e) a) @ ''\<newline>'' @ toCsvLine (ApplicationLoadBalancer a))"
  by (simp add: CdkStack_v1_def drawioCsv_def ApplicationLoadBalancer_def AwsResource_new_def)

lemma CdkStack_v2_rows:
  "CdkStack_v2 e a =
     drawioCsv_template (toCsvLine (ApplicationLoadBalancer a) @ ''\<newline>'' @ toCsvLine (addRef (Ec2Instance e) a))"
  by (simp add: CdkStack_v2_def drawioCsv_template_def toCsvLine_def addRef_def
      Ec2Instance_def ApplicationLoadBalancer_def AwsResource_new_def)

lemma CdkStack_v1_session:
  "CdkStack_v1 e a = drawioCsv (build [(ComputeInstance, e, [a]), (LoadBalancer, a, [])])"
  by (simp add: CdkStack_v1_def build_def build_node_def newNode_def
      ApplicationLoadBalancer_def AwsResource_new_def)

lemma CdkStack_v2_session:
  "CdkStack_v2 e a = drawioCsv (build [(LoadBalancer, a, []), (ComputeInstance, e, [a])])"
  by (simp add: CdkStack_v2_def drawioCsv_def drawioCsv_template_def build_def build_node_def
      newNode_def toCsvLine_def addRef_def Ec2Instance_def ApplicationLoadBalancer_def
      AwsResource_new_def)

text \<open>
  C9, as the specification states it, is false: for the instance \<open>i-1\<close> and the load
  balancer \<open>alb-1\<close> the two versions give different texts.
\<close>

theorem variants_differ_counterexample:
  "CdkStack_v1 ''i-1'' ''alb-1'' \<noteq> CdkStack_v2 ''i-1'' ''alb-1''"
  by (simp add: CdkStack_v1_def CdkStack_v2_def drawioCsv_def drawioCsv_template_def
      toCsvLine_def addRef_def Ec2Instance_def ApplicationLoadBalancer_def AwsResource_new_def)

text \<open>
  C9, amended. Given the same instance identifier and load balancer name, both versions
  render the same two nodes under the same header, in opposite order: the first version
  puts the instance's row first, the second version the load balancer's row.
\<close>

theorem variants_same_rows_opposite_order:
  "CdkStack_v1 e a = drawioCsv [addRef (Ec2Instance e) a, ApplicationLoadBalancer a]
   \<and> CdkStack_v2 e a = drawioCsv [ApplicationLoadBalancer a, addRef (Ec2Instance e) a]"
  by (simp add: CdkStack_v1_def CdkStack_v2_def drawioCsv_def drawioCsv_template_def
      toCsvLine_def addRef_def Ec2Instance_def ApplicationLoadBalancer_def AwsResource_new_def)

text \<open>
  C10. In both versions the text starts with a line break, which the title line
  follows, and ends with a line break after the last row; the same holds for the
  rendering of any resource list.
\<close>

theorem output_framed_by_line_breaks:
  "prefix ''\<newline>## Simple web server AWS diagram\<newline>'' (CdkStack_v1 e a)
   \<and> suffix (toCsvLine (ApplicationLoadBalancer a) @ ''\<newline>'') (CdkStack_v1 e a)
   \<and> prefix ''\<newline>## Simple web server AWS diagram\<newline>'' (CdkStack_v2 e a)
   \<and> suffix (toCsvLine (addRef (Ec2Instance e) a) @ ''\<newline>'') (CdkStack_v2 e a)
   \<and> prefix ''\<newline>## Simple web server AWS diagram\<newline>'' (drawioCsv rs)
   \<and> suffix ''\<newline>'' (drawioCsv rs)"
proof -
  have v1: "suffix (toCsvLine (ApplicationLoadBalancer a) @ ''\<newline>'') (CdkStack_v1 e a)"
    unfolding CdkStack_v1_rows
    by (rule suffix_order.trans [OF _ template_suffix]) (simp add: suffix_def)
  have v2: "suffix (toCsvLine (addRef (Ec2Instance e) a) @ ''\<newline>'') (CdkStack_v2 e a)"
    unfolding CdkStack_v2_rows
    by (rule suffix_order.trans [OF _ template_suffix]) (simp add: suffix_def)
  have rs: "suffix ''\<newline>'' (drawioCsv rs)"
    unfolding drawioCsv_def
    by (rule suffix_order.trans [OF _ template_suffix]) (simp add: suffix_def)
  show ?thesis
    using v1 v2 rs by (simp add: CdkStack_v1_rows CdkStack_v2_rows drawioCsv_def template_prefix)
qed

section \<open>The structure of the text\<close>

lemma join_terminated: "xs \<noteq> [] \<Longrightarrow> join_str ''\<newline>'' xs @ ''\<newline>'' = terminated xs"
proof (induction xs)
  case Nil
  then show ?case by simp
next
  case (Cons x xs)
  show ?case
  proof (cases "xs = []")
    case True
    then show ?thesis by (simp add: terminated_def)
  next
    case False
    with Cons.IH have "join_str ''\<newline>'' xs @ ''\<newline>'' = terminated xs" by simp
    with False show ?thesis by (simp add: join_str_Cons terminated_def)
  qed
qed

lemma template_lines:
  "drawioCsv_template rows =
     ''\<newline>'' @ terminated directive_lines @ terminated [column_line] @ rows @ ''\<newline>''"
  by (simp add: drawioCsv_template_def terminated_def directive_lines_def column_line_def)

lemma drawioCsv_lines:
  "drawioCsv rs =
     ''\<newline>'' @ terminated directive_lines @ terminated [column_line] @
     (if rs = [] then ''\<newline>'' else terminated (map toCsvLine rs))"
proof (cases "rs = []")
  case True
  then show ?thesis by (simp add: drawioCsv_def template_lines)
next
  case False
  then have "join_str ''\<newline>'' (map toCsvLine rs) @ ''\<newline>'' = terminated (map toCsvLine rs)"
    by (simp add: join_terminated)
  with False show ?thesis by (simp add: drawioCsv_def template_lines)
qed

text \<open>
  C4. For every resource list the text is: a line break, the thirteen directive lines,
  each starting with \<open>#\<close> and each followed by a line break, the line
  \<open>component,fill,stroke,shape,refs\<close> with its line break, and then the row of each
  resource with a line break after it, one row per element of the list and in the order
  of the list. For the empty list a single line break follows the column line.
\<close>

theorem drawioCsv_structure:
  "drawioCsv rs =
     ''\<newline>'' @ terminated directive_lines @ terminated [''component,fill,stroke,shape,refs''] @
     (if rs = [] then ''\<newline>'' else terminated (map toCsvLine rs))
   \<and> list_all (prefix ''#'') directive_lines
   \<and> length directive_lines = 13"
proof (intro conjI)
  show "drawioCsv rs =
     ''\<newline>'' @ terminated directive_lines @ terminated [''component,fill,stroke,shape,refs''] @
     (if rs = [] then ''\<newline>'' else terminated (map toCsvLine rs))"
    using drawioCsv_lines [of rs] by (simp only: column_line_def)
  show "list_all (prefix ''#'') directive_lines"
    by (simp add: directive_lines_def)
  show "length directive_lines = 13"
    by (simp add: directive_lines_def)
qed

section \<open>Rendering leaves the objects as they are\<close>

lemma map_toCsvLine_st_eq: "map_toCsvLine_st rs = (map toCsvLine rs, rs)"
  by (induction rs) (simp_all add: toCsvLine_st_def toCsvLine_def)

lemma drawioCsv_st_eq: "drawioCsv_st rs = (drawioCsv rs, rs)"
  by (simp add: drawioCsv_st_def map_toCsvLine_st_eq drawioCsv_def)

text \<open>
  C8. Rendering returns a text that is a function of the resource list alone and leaves
  every object as it was, so rendering the list again after a first rendering gives the
  same text and the same objects. Building and rendering in the constructor is a
  function of the two identifiers alone: the text is the template around the instance's
  row and the load balancer's row, both spelled out from the identifiers.
\<close>

theorem render_deterministic:
  "drawioCsv_st rs = (drawioCsv rs, rs)
   \<and> snd (drawioCsv_st rs) = rs
   \<and> drawioCsv_st (snd (drawioCsv_st rs)) = drawioCsv_st rs
   \<and> CdkStack_v1 e a =
       drawioCsv_template
         (e @ '',#ED7100,#ffffff,mxgraph.aws4.ec2,'' @ a @ ''\<newline>'' @
          a @ '',#8C4FFF,#ffffff,mxgraph.aws4.application_load_balancer,'')"
  by (simp add: drawioCsv_st_eq CdkStack_v1_rows toCsvLine_def addRef_def Ec2Instance_def
      ApplicationLoadBalancer_def AwsResource_new_def)

section \<open>Reading the table back\<close>

lemma split_acc_sep:
  "c \<notin> set a \<Longrightarrow> split_acc c acc (a @ c # b) = (rev acc @ a) # split_acc c [] b"
  by (induction a arbitrary: acc) auto

lemma split_acc_none: "c \<notin> set a \<Longrightarrow> split_acc c acc a = [rev acc @ a]"
  by (induction a arbitrary: acc) auto

lemma split_on_sep: "c \<notin> set a \<Longrightarrow> split_on c (a @ c # b) = a # split_on c b"
  by (simp add: split_on_def split_acc_sep)

lemma split_on_none: "c \<notin> set a \<Longrightarrow> split_on c a = [a]"
  by (simp add: split_on_def split_acc_none)

lemma split_on_pieces:
  "\<forall>l \<in> set ls. c \<notin> set l \<Longrightarrow>
   split_on c (concat (map (\<lambda>l. l @ [c]) ls) @ rest) = ls @ split_on c rest"
  by (induction ls) (simp_all add: split_on_sep)

lemma split_on_join:
  "\<forall>l \<in> set ls. c \<notin> set l \<Longrightarrow>
   split_on c (join_str [c] ls) = (if ls = [] then [[]] else ls)"
proof (induction ls)
  case Nil
  then show ?case by (simp add: split_on_def)
next
  case (Cons x xs)
  then show ?case
    by (cases "xs = []") (simp_all add: join_str_Cons split_on_sep split_on_none)
qed

lemma set_join_str: "set (join_str sep xs) \<subseteq> set sep \<union> \<Union> (set ` set xs)"
proof (induction xs)
  case Nil
  then show ?case by simp
next
  case (Cons x xs)
  then show ?case by (cases "xs = []") (auto simp: join_str_Cons)
qed

lemma split_on_lines:
  assumes "\<forall>r \<in> set rs. CHR ''\<newline>'' \<notin> set (toCsvLine r)"
  shows "split_on CHR ''\<newline>'' (drawioCsv rs) =
           [] # directive_lines @ [column_line] @
           (if rs = [] then [[], []] else map toCsvLine rs @ [[]])"
proof -
  have d: "\<forall>l \<in> set directive_lines. CHR ''\<newline>'' \<notin> set l"
    by (simp add: directive_lines_def)
  have c: "\<forall>l \<in> set [column_line]. CHR ''\<newline>'' \<notin> set l"
    by (simp add: column_line_def)
  have r: "\<forall>l \<in> set (map toCsvLine rs). CHR ''\<newline>'' \<notin> set l"
    using assms by simp
  have tail: "split_on CHR ''\<newline>'' (if rs = [] then ''\<newline>'' else terminated (map toCsvLine rs))
                = (if rs = [] then [[], []] else map toCsvLine rs @ [[]])"
    using split_on_pieces [OF r, of "[]"]
    by (simp add: terminated_def split_on_def)
  have "split_on CHR ''\<newline>'' (drawioCsv rs) =
          [] # split_on CHR ''\<newline>'' (terminated directive_lines @ terminated [column_line] @
            (if rs = [] then ''\<newline>'' else terminated (map toCsvLine rs)))"
    using split_on_sep [of "CHR ''\<newline>''" "[]"] by (simp add: drawioCsv_lines)
  also have "split_on CHR ''\<newline>'' (terminated directive_lines @ terminated [column_line] @
            (if rs = [] then ''\<newline>'' else terminated (map toCsvLine rs)))
          = directive_lines @ split_on CHR ''\<newline>'' (terminated [column_line] @
            (if rs = [] then ''\<newline>'' else terminated (map toCsvLine rs)))"
    unfolding terminated_def by (rule split_on_pieces [OF d])
  also have "split_on CHR ''\<newline>'' (terminated [column_line] @
            (if rs = [] then ''\<newline>'' else terminated (map toCsvLine rs)))
          = [column_line] @ split_on CHR ''\<newline>''
            (if rs = [] then ''\<newline>'' else terminated (map toCsvLine rs))"
    unfolding terminated_def by (rule split_on_pieces [OF c])
  finally show ?thesis by (simp only: tail)
qed

lemma dropWhile_directives:
  "dropWhile (\<lambda>l. l \<noteq> column_line) ([] # directive_lines @ [column_line] @ rest) = column_line # rest"
  by (simp add: directive_lines_def column_line_def)

lemma toCsvLine_nonempty: "toCsvLine r \<noteq> []"
  by (simp add: toCsvLine_def)

lemma data_rows_drawioCsv:
  assumes "\<forall>r \<in> set rs. CHR ''\<newline>'' \<notin> set (toCsvLine r)"
  shows "data_rows (drawioCsv rs) = map toCsvLine rs"
proof -
  have "filter (\<lambda>l. l \<noteq> []) (map toCsvLine rs) = map toCsvLine rs"
    by (simp add: filter_map o_def toCsvLine_nonempty)
  then show ?thesis
    unfolding data_rows_def split_on_lines [OF assms] dropWhile_directives
    by simp
qed

lemma toCsvLine_pieces:
  "toCsvLine r =
     concat (map (\<lambda>l. l @ '','') [name r, fill r, stroke r, shape r]) @ join_str '','' (refs r)"
  by (simp add: toCsvLine_def)

lemma split_on_toCsvLine:
  assumes "CHR '','' \<notin> set (name r)" "CHR '','' \<notin> set (fill r)"
    "CHR '','' \<notin> set (stroke r)" "CHR '','' \<notin> set (shape r)"
    "\<forall>t \<in> set (refs r). CHR '','' \<notin> set t"
  shows "split_on CHR '','' (toCsvLine r) =
           [name r, fill r, stroke r, shape r] @ (if refs r = [] then [[]] else refs r)"
proof -
  have f: "\<forall>l \<in> set [name r, fill r, stroke r, shape r]. CHR '','' \<notin> set l"
    using assms by simp
  show ?thesis
    unfolding toCsvLine_pieces
    by (simp only: split_on_pieces [OF f] split_on_join [OF assms(5)])
qed

section \<open>Sessions\<close>

lemma build_node_fields:
  "name (build_node d) = declared_name d"
  "refs (build_node d) = snd (snd d)"
  "CHR '','' \<notin> set (fill (build_node d))" "CHR ''\<newline>'' \<notin> set (fill (build_node d))"
  "CHR '','' \<notin> set (stroke (build_node d))" "CHR ''\<newline>'' \<notin> set (stroke (build_node d))"
  "CHR '','' \<notin> set (shape (build_node d))" "CHR ''\<newline>'' \<notin> set (shape (build_node d))"
  by (cases "fst d";
      simp add: build_node_def declared_name_def style_foldl_addRef refs_foldl_addRef newNode_def
        Ec2Instance_def ApplicationLoadBalancer_def AwsResource_new_def)+

lemma valid_session_name:
  "valid_session ds \<Longrightarrow> d \<in> set ds \<Longrightarrow> valid_name (declared_name d)"
  by (auto simp: valid_session_def list_all_iff)

lemma valid_session_ref:
  assumes "valid_session ds" "d \<in> set ds" "t \<in> set (snd (snd d))"
  shows "t \<in> declared_name ` set ds" "valid_name t"
proof -
  show t: "t \<in> declared_name ` set ds"
    using assms by (auto simp: valid_session_def list_all_iff)
  then show "valid_name t"
    using assms(1) by (auto simp: valid_session_name)
qed

lemma row_without_line_break:
  assumes "valid_session ds" "d \<in> set ds"
  shows "CHR ''\<newline>'' \<notin> set (toCsvLine (build_node d))"
proof -
  have n: "CHR ''\<newline>'' \<notin> set (declared_name d)"
    using valid_session_name [OF assms] by (simp add: valid_name_def)
  have "CHR ''\<newline>'' \<notin> set t" if "t \<in> set (snd (snd d))" for t
    using valid_session_ref(2) [OF assms that] by (simp add: valid_name_def)
  then have j: "CHR ''\<newline>'' \<notin> set (join_str '','' (snd (snd d)))"
    using set_join_str [of "'',''" "snd (snd d)"] by auto
  show ?thesis
    using n j by (simp add: toCsvLine_def build_node_fields)
qed

lemma row_fields:
  assumes "valid_session ds" "d \<in> set ds"
  shows "split_on CHR '','' (toCsvLine (build_node d)) =
           [declared_name d, fill (build_node d), stroke (build_node d), shape (build_node d)] @
           (if snd (snd d) = [] then [[]] else snd (snd d))"
proof -
  have n: "CHR '','' \<notin> set (name (build_node d))"
    using valid_session_name [OF assms] by (simp add: valid_name_def build_node_fields)
  have r: "\<forall>t \<in> set (refs (build_node d)). CHR '','' \<notin> set t"
  proof
    fix t assume "t \<in> set (refs (build_node d))"
    then have "t \<in> set (snd (snd d))" by (simp add: build_node_fields)
    from valid_session_ref(2) [OF assms this] show "CHR '','' \<notin> set t"
      by (simp add: valid_name_def)
  qed
  show ?thesis
    using split_on_toCsvLine [OF n build_node_fields(3,5,7) r]
    by (simp add: build_node_fields)
qed

lemma row_component:
  assumes "valid_session ds" "d \<in> set ds"
  shows "hd (split_on CHR '','' (toCsvLine (build_node d))) = declared_name d"
  by (simp add: row_fields [OF assms])

lemma row_refs:
  assumes "valid_session ds" "d \<in> set ds"
  shows "filter (\<lambda>f. f \<noteq> []) (drop 4 (split_on CHR '','' (toCsvLine (build_node d)))) = snd (snd d)"
proof -
  have "t \<noteq> []" if "t \<in> set (snd (snd d))" for t
    using valid_session_ref(2) [OF assms that] by (auto simp: valid_name_def)
  then have "filter (\<lambda>f. f \<noteq> []) (snd (snd d)) = snd (snd d)"
    by (simp add: filter_id_conv)
  then show ?thesis
    by (simp add: row_fields [OF assms])
qed

lemma data_rows_build:
  assumes "valid_session ds"
  shows "data_rows (drawioCsv (build ds)) = map (\<lambda>d. toCsvLine (build_node d)) ds"
proof -
  have "\<forall>r \<in> set (build ds). CHR ''\<newline>'' \<notin> set (toCsvLine r)"
    using row_without_line_break [OF assms] by (auto simp: build_def)
  then show ?thesis
    by (simp add: data_rows_drawioCsv build_def o_def)
qed

lemma component_column_build:
  assumes "valid_session ds"
  shows "component_column (drawioCsv (build ds)) = map declared_name ds"
  unfolding component_column_def data_rows_build [OF assms]
  using row_component [OF assms] by (simp add: o_def)

lemma refs_column_build:
  assumes "valid_session ds"
  shows "refs_column (drawioCsv (build ds)) = concat (map (\<lambda>d. snd (snd d)) ds)"
proof -
  have "map (\<lambda>d. filter (\<lambda>f. f \<noteq> []) (drop 4 (split_on CHR '','' (toCsvLine (build_node d))))) ds
          = map (\<lambda>d. snd (snd d)) ds"
    using row_refs [OF assms] by simp
  then show ?thesis
    unfolding refs_column_def data_rows_build [OF assms] by (simp only: map_map o_def)
qed

text \<open>
  C7. For every valid session (every declared name not empty and without comma or line
  break, every reference the name of a declared resource) the names in the component
  column of the rendered text are exactly the declared names, in the order of the
  declarations, and every name in a refs column is a name of the component column.
\<close>

theorem round_trip:
  assumes "valid_session ds"
  shows "set (component_column (drawioCsv (build ds))) = set (map declared_name ds)
         \<and> component_column (drawioCsv (build ds)) = map declared_name ds
         \<and> set (refs_column (drawioCsv (build ds))) \<subseteq> set (component_column (drawioCsv (build ds)))"
proof -
  have "t \<in> declared_name ` set ds" if "d \<in> set ds" "t \<in> set (snd (snd d))" for d t
    using valid_session_ref(1) [OF assms that] .
  then have "set (concat (map (\<lambda>d. snd (snd d)) ds)) \<subseteq> declared_name ` set ds"
    by auto
  then show ?thesis
    by (simp add: component_column_build [OF assms] refs_column_build [OF assms])
qed

text \<open>
  C7, at a concrete session. The session of the first version's constructor, for the instance \<open>i-1\<close> and the load
  balancer \<open>alb-1\<close>, is valid; its component column is \<open>i-1\<close>, \<open>alb-1\<close>.
\<close>

theorem round_trip_witness:
  "valid_session [(ComputeInstance, ''i-1'', [''alb-1'']), (LoadBalancer, ''alb-1'', [])]
   \<and> CdkStack_v1 ''i-1'' ''alb-1'' =
       drawioCsv (build [(ComputeInstance, ''i-1'', [''alb-1'']), (LoadBalancer, ''alb-1'', [])])
   \<and> component_column (CdkStack_v1 ''i-1'' ''alb-1'') = [''i-1'', ''alb-1'']
   \<and> set (refs_column (CdkStack_v1 ''i-1'' ''alb-1'')) \<subseteq> {''i-1'', ''alb-1''}"
proof -
  have v: "valid_session [(ComputeInstance, ''i-1'', [''alb-1'']), (LoadBalancer, ''alb-1'', [])]"
    by (simp add: valid_session_def valid_name_def declared_name_def)
  have c: "component_column
              (drawioCsv (build [(ComputeInstance, ''i-1'', [''alb-1'']), (LoadBalancer, ''alb-1'', [])]))
            = [''i-1'', ''alb-1'']"
    using round_trip [OF v] by (simp add: declared_name_def)
  have r: "set (refs_column
              (drawioCsv (build [(ComputeInstance, ''i-1'', [''alb-1'']), (LoadBalancer, ''alb-1'', [])])))
            \<subseteq> set [''i-1'', ''alb-1'']"
    using round_trip [OF v] unfolding c by (elim conjE)
  show ?thesis
    unfolding CdkStack_v1_session c
    using v r by simp
qed

section \<open>Scenario A\<close>

text \<open>
  C3. Scenario A: a load balancer \<open>alb-1\<close> without references, then a compute instance
  \<open>i-1\<close> that refers to \<open>alb-1\<close>, both constructed and the reference added without
  error, rendered in that order. The rendered text is the line break, the header, the
  column line and the two rows, the load balancer's row first and the instance's row
  second, each followed by a line break; read back, the data rows of the text are
  exactly these two rows in this order.
\<close>

theorem scenario_A_rows:
  \<open>createNode LoadBalancer ''alb-1'' = Inr (newNode LoadBalancer ''alb-1'')
   \<and> createNode ComputeInstance ''i-1'' = Inr (newNode ComputeInstance ''i-1'')
   \<and> addReference (newNode ComputeInstance ''i-1'') ''alb-1''
     = Inr (addRef (newNode ComputeInstance ''i-1'') ''alb-1'')
   \<and> map toCsvLine [newNode LoadBalancer ''alb-1'', addRef (newNode ComputeInstance ''i-1'') ''alb-1'']
     = [''alb-1,#8C4FFF,#ffffff,mxgraph.aws4.application_load_balancer,'',
        ''i-1,#ED7100,#ffffff,mxgraph.aws4.ec2,alb-1'']
   \<and> drawioCsv [newNode LoadBalancer ''alb-1'', addRef (newNode ComputeInstance ''i-1'') ''alb-1'']
     = ''\<newline>'' @
       ''## Simple web server AWS diagram\<newline>'' @
       ''# label: %component%\<newline>'' @
       ''# style: shape=%shape%;fillColor=%fill%;strokeColor=%stroke%;verticalLabelPosition=bottom;\<newline>'' @
       ''# namespace: csvimport-\<newline>'' @
       ''# connect: {"from":"refs", "to":"component", "invert":true, "style":"curved=0;endArrow=block;endFill=0;dashed=1;strokeColor=#6c8ebf;"}\<newline>'' @
       ''# width: 80\<newline>'' @
       ''# height: 80\<newline>'' @
       ''# ignore: refs\<newline>'' @
       ''# nodespacing: 40\<newline>'' @
       ''# levelspacing: 40\<newline>'' @
       ''# edgespacing: 40\<newline>'' @
       ''# layout: horizontaltree\<newline>'' @
       ''## CSV data starts below this line\<newline>'' @
       ''component,fill,stroke,shape,refs\<newline>'' @
       ''alb-1,#8C4FFF,#ffffff,mxgraph.aws4.application_load_balancer,\<newline>'' @
       ''i-1,#ED7100,#ffffff,mxgraph.aws4.ec2,alb-1\<newline>''
   \<and> data_rows (drawioCsv [newNode LoadBalancer ''alb-1'', addRef (newNode ComputeInstance ''i-1'') ''alb-1''])
     = [''alb-1,#8C4FFF,#ffffff,mxgraph.aws4.application_load_balancer,'',
        ''i-1,#ED7100,#ffffff,mxgraph.aws4.ec2,alb-1'']
   \<and> suffix (''alb-1,#8C4FFF,#ffffff,mxgraph.aws4.application_load_balancer,\<newline>'' @
              ''i-1,#ED7100,#ffffff,mxgraph.aws4.ec2,alb-1\<newline>'')
        (drawioCsv [newNode LoadBalancer ''alb-1'', addRef (newNode ComputeInstance ''i-1'') ''alb-1''])\<close>
proof -
  let ?rs = "[newNode LoadBalancer ''alb-1'', addRef (newNode ComputeInstance ''i-1'') ''alb-1'']"
  let ?rows = "[''alb-1,#8C4FFF,#ffffff,mxgraph.aws4.application_load_balancer,'',
                ''i-1,#ED7100,#ffffff,mxgraph.aws4.ec2,alb-1'']"
  have rows: "map toCsvLine ?rs = ?rows"
    by (simp add: toCsvLine_def addRef_def newNode_def Ec2Instance_def
        ApplicationLoadBalancer_def AwsResource_new_def)
  have free: "\<forall>r \<in> set ?rs. CHR ''\<newline>'' \<notin> set (toCsvLine r)"
    by (simp add: toCsvLine_def addRef_def newNode_def Ec2Instance_def
        ApplicationLoadBalancer_def AwsResource_new_def)
  have read: "data_rows (drawioCsv ?rs) = ?rows"
    by (simp only: data_rows_drawioCsv [OF free] rows)
  have joined: "join_str ''\<newline>'' (map toCsvLine ?rs) =
      ''alb-1,#8C4FFF,#ffffff,mxgraph.aws4.application_load_balancer,\<newline>'' @
      ''i-1,#ED7100,#ffffff,mxgraph.aws4.ec2,alb-1''"
    by (simp only: rows) simp
  have tpl: "drawioCsv ?rs = drawioCsv_template
      (''alb-1,#8C4FFF,#ffffff,mxgraph.aws4.application_load_balancer,\<newline>'' @
       ''i-1,#ED7100,#ffffff,mxgraph.aws4.ec2,alb-1'')"
    by (simp only: drawioCsv_def joined)
  have whole: \<open>drawioCsv ?rs = ''\<newline>'' @
       ''## Simple web server AWS diagram\<newline>'' @
       ''# label: %component%\<newline>'' @
       ''# style: shape=%shape%;fillColor=%fill%;strokeColor=%stroke%;verticalLabelPosition=bottom;\<newline>'' @
       ''# namespace: csvimport-\<newline>'' @
       ''# connect: {"from":"refs", "to":"component", "invert":true, "style":"curved=0;endArrow=block;endFill=0;dashed=1;strokeColor=#6c8ebf;"}\<newline>'' @
       ''# width: 80\<newline>'' @
       ''# height: 80\<newline>'' @
       ''# ignore: refs\<newline>'' @
       ''# nodespacing: 40\<newline>'' @
       ''# levelspacing: 40\<newline>'' @
       ''# edgespacing: 40\<newline>'' @
       ''# layout: horizontaltree\<newline>'' @
       ''## CSV data starts below this line\<newline>'' @
       ''component,fill,stroke,shape,refs\<newline>'' @
       ''alb-1,#8C4FFF,#ffffff,mxgraph.aws4.application_load_balancer,\<newline>'' @
       ''i-1,#ED7100,#ffffff,mxgraph.aws4.ec2,alb-1\<newline>''\<close>
    unfolding tpl by (simp add: drawioCsv_template_def)
  have ends: "suffix (''alb-1,#8C4FFF,#ffffff,mxgraph.aws4.application_load_balancer,\<newline>'' @
              ''i-1,#ED7100,#ffffff,mxgraph.aws4.ec2,alb-1\<newline>'') (drawioCsv ?rs)"
    unfolding tpl
    by (rule suffix_order.trans [OF _ template_suffix]) simp
  have ops: "createNode LoadBalancer ''alb-1'' = Inr (newNode LoadBalancer ''alb-1'')
     \<and> createNode ComputeInstance ''i-1'' = Inr (newNode ComputeInstance ''i-1'')
     \<and> addReference (newNode ComputeInstance ''i-1'') ''alb-1''
       = Inr (addRef (newNode ComputeInstance ''i-1'') ''alb-1'')"
    by (simp add: createNode_def addReference_def)
  from ops rows whole read ends show ?thesis by (intro conjI) (elim conjE, assumption)+
qed

end
